theory Spec2Isabelle
  imports Complex_Main "HOL-Library.Sublist"
begin

section \<open>Values and errors\<close>

text \<open>
  The exceptions that the modelled code paths can raise. \<open>AttributeError\<close> carries the name
  of the attribute that was read on an object that does not have it; \<open>RenderError\<close> stands
  for an exception of the plotting library.
\<close>

datatype error =
    KeyError
  | TypeError
  | ValueError
  | IndexError
  | IndexingError
  | ZeroDivisionError
  | AttributeError string
  | RenderError

text \<open>
  A float cell is a number or the missing value \<open>NaN\<close>. Finite floats are idealised as reals:
  rounding and infinities are outside the model. A cell of a dataset is a float or a text
  (categorical) value.
\<close>

datatype num = Val real | NaN

datatype cell = is_Num: Num num | is_Str: Str string

fun num_sub :: "num \<Rightarrow> num \<Rightarrow> num" where
  "num_sub (Val a) (Val b) = Val (a - b)"
| "num_sub _ _ = NaN"

fun num_add :: "num \<Rightarrow> num \<Rightarrow> num" where
  "num_add (Val a) (Val b) = Val (a + b)"
| "num_add _ _ = NaN"

fun num_mul :: "num \<Rightarrow> num \<Rightarrow> num" where
  "num_mul (Val a) (Val b) = Val (a * b)"
| "num_mul _ _ = NaN"

fun num_abs :: "num \<Rightarrow> num" where
  "num_abs (Val a) = Val \<bar>a\<bar>"
| "num_abs NaN = NaN"

text \<open>Every ordering comparison with \<open>NaN\<close> on either side is false.\<close>

fun num_ge :: "num \<Rightarrow> num \<Rightarrow> bool" where
  "num_ge (Val a) (Val b) = (b \<le> a)"
| "num_ge _ _ = False"

fun num_le :: "num \<Rightarrow> num \<Rightarrow> bool" where
  "num_le (Val a) (Val b) = (a \<le> b)"
| "num_le _ _ = False"

definition bind_err :: "error + 'a \<Rightarrow> ('a \<Rightarrow> error + 'b) \<Rightarrow> error + 'b" where
  "bind_err m f = (case m of Inl e \<Rightarrow> Inl e | Inr x \<Rightarrow> f x)"

section \<open>Tables\<close>

text \<open>
  A table has an ordered list of column names and a list of rows; a row is its index label
  and its cells in column order (tables are rectangular: every row has one cell per column).
  A series is a list of labelled values. A dataset has integer row labels and cells; the
  statistics table of the estimator is indexed by column names and holds floats; a mask
  holds booleans.
\<close>

record ('i, 'a) frame =
  columns :: "string list"
  rows :: "('i \<times> 'a list) list"

type_synonym ('i, 'a) series = "('i \<times> 'a) list"

type_synonym dataframe = "(nat, cell) frame"

fun positions_from :: "nat \<Rightarrow> string list \<Rightarrow> string \<Rightarrow> nat list" where
  "positions_from n [] k = []"
| "positions_from n (c # cs) k =
     (if c = k then n # positions_from (Suc n) cs k else positions_from (Suc n) cs k)"

definition positions :: "string list \<Rightarrow> string \<Rightarrow> nat list" where
  "positions cs k = positions_from 0 cs k"

text \<open>
  \<open>df[keys]\<close> with a list of names: a missing name raises \<open>KeyError\<close>; otherwise the result
  has, for each key in turn, every column of that name.
\<close>

definition getitem_list :: "('i, 'a) frame \<Rightarrow> string list \<Rightarrow> error + ('i, 'a) frame" where
  "getitem_list df keys =
     (if list_all (\<lambda>k. positions (columns df) k \<noteq> []) keys
      then let ps = concat (map (positions (columns df)) keys)
           in Inr \<lparr>columns = map (\<lambda>p. columns df ! p) ps,
                   rows = map (\<lambda>r. (fst r, map (\<lambda>p. snd r ! p) ps)) (rows df)\<rparr>
      else Inl KeyError)"

text \<open>
  \<open>df[key]\<close> with one name: the column as a series over the row labels. The tables read this
  way here are built by \<open>setitem\<close>, which keeps names unique; the first column of the name
  is taken.
\<close>

definition getitem_col :: "('i, 'a) frame \<Rightarrow> string \<Rightarrow> error + ('i, 'a) series" where
  "getitem_col df key =
     (case positions (columns df) key of
        [] \<Rightarrow> Inl KeyError
      | p # _ \<Rightarrow> Inr (map (\<lambda>r. (fst r, snd r ! p)) (rows df)))"

text \<open>
  \<open>df[key] = s\<close> with a series: when the index of \<open>s\<close> equals the index of the table the values
  are stored by position; otherwise the series is reindexed by label, which raises
  \<open>ValueError\<close> when its index has repeated labels and fills absent labels with \<open>NaN\<close>.
  An existing column of that name is overwritten, a new one is appended.
\<close>

definition put_col :: "('i, num) frame \<Rightarrow> string \<Rightarrow> num list \<Rightarrow> ('i, num) frame" where
  "put_col df key vs =
     (case positions (columns df) key of
        [] \<Rightarrow> \<lparr>columns = columns df @ [key],
               rows = map2 (\<lambda>r v. (fst r, snd r @ [v])) (rows df) vs\<rparr>
      | p # _ \<Rightarrow> \<lparr>columns = columns df,
                  rows = map2 (\<lambda>r v. (fst r, (snd r)[p := v])) (rows df) vs\<rparr>)"

definition setitem :: "('i, num) frame \<Rightarrow> string \<Rightarrow> ('i, num) series \<Rightarrow> error + ('i, num) frame" where
  "setitem df key s =
     (if map fst s = map fst (rows df) then Inr (put_col df key (map snd s))
      else if \<not> distinct (map fst s) then Inl ValueError
      else Inr (put_col df key
                  (map (\<lambda>r. case map_of s (fst r) of None \<Rightarrow> NaN | Some v \<Rightarrow> v) (rows df))))"

text \<open>\<open>pd.DataFrame(index=labels)\<close>: a table with the given row labels and no column.\<close>

definition DataFrame_index :: "'i list \<Rightarrow> ('i, num) frame" where
  "DataFrame_index labels = \<lparr>columns = [], rows = map (\<lambda>l. (l, [])) labels\<rparr>"

subsection \<open>Quantiles\<close>

text \<open>
  The percentile of a non-empty list by linear interpolation: at the fractional position
  \<open>(n - 1) * q\<close> of the sorted values, between the two neighbouring order statistics.
\<close>

definition percentile :: "real list \<Rightarrow> real \<Rightarrow> real" where
  "percentile xs q =
     (let s = sort xs;
          n = length s;
          pos = real (n - 1) * q;
          lo = nat \<lfloor>pos\<rfloor>;
          hi = min (lo + 1) (n - 1);
          t = pos - real lo
      in s ! lo + (s ! hi - s ! lo) * t)"

fun present :: "cell list \<Rightarrow> real list" where
  "present [] = []"
| "present (Num (Val x) # cs) = x # present cs"
| "present (_ # cs) = present cs"

text \<open>Missing values are skipped; a column without any value has the quantile \<open>NaN\<close>.\<close>

definition nanpercentile :: "cell list \<Rightarrow> real \<Rightarrow> num" where
  "nanpercentile cs q = (let xs = present cs in if xs = [] then NaN else Val (percentile xs q))"

definition column_cells :: "('i, 'a) frame \<Rightarrow> nat \<Rightarrow> 'a list" where
  "column_cells df p = map (\<lambda>r. snd r ! p) (rows df)"

definition has_text :: "('i, cell) frame \<Rightarrow> bool" where
  "has_text df = list_ex (\<lambda>r. list_ex is_Str (snd r)) (rows df)"

text \<open>
  \<open>df.quantile(q)\<close>: one quantile per column, as a series over the column names; a column
  with text raises \<open>TypeError\<close>.
\<close>

definition quantile :: "('i, cell) frame \<Rightarrow> real \<Rightarrow> error + (string, num) series" where
  "quantile df q =
     (if has_text df then Inl TypeError
      else Inr (map (\<lambda>p. (columns df ! p, nanpercentile (column_cells df p) q))
                  [0..<length (columns df)]))"

subsection \<open>Series arithmetic\<close>

text \<open>
  The series combined by \<open>fit\<close> are columns of one table, so they share its index and are
  combined by position.
\<close>

definition series_sub :: "('i, num) series \<Rightarrow> ('i, num) series \<Rightarrow> ('i, num) series" where
  "series_sub a b = map2 (\<lambda>x y. (fst x, num_sub (snd x) (snd y))) a b"

definition series_add :: "('i, num) series \<Rightarrow> ('i, num) series \<Rightarrow> ('i, num) series" where
  "series_add a b = map2 (\<lambda>x y. (fst x, num_add (snd x) (snd y))) a b"

definition series_scale :: "real \<Rightarrow> ('i, num) series \<Rightarrow> ('i, num) series" where
  "series_scale k a = map (\<lambda>x. (fst x, num_mul (Val k) (snd x))) a"

subsection \<open>Masks\<close>

text \<open>
  Comparing a table with a series by an ordering operator matches the series' labels with
  the table's columns: unequal label lists raise \<open>ValueError\<close>. Each cell is compared with the
  value of its column; comparing a text with a float raises \<open>TypeError\<close>.
\<close>

fun cell_cmp :: "(num \<Rightarrow> num \<Rightarrow> bool) \<Rightarrow> cell \<Rightarrow> num \<Rightarrow> bool" where
  "cell_cmp cmp (Num x) b = cmp x b"
| "cell_cmp cmp (Str s) b = False"

definition frame_cmp ::
  "(num \<Rightarrow> num \<Rightarrow> bool) \<Rightarrow> ('i, cell) frame \<Rightarrow> (string, num) series \<Rightarrow> error + ('i, bool) frame" where
  "frame_cmp cmp df s =
     (if columns df \<noteq> map fst s then Inl ValueError
      else if has_text df then Inl TypeError
      else Inr \<lparr>columns = columns df,
                rows = map (\<lambda>r. (fst r, map2 (cell_cmp cmp) (snd r) (map snd s))) (rows df)\<rparr>)"

text \<open>\<open>a & b\<close> on two masks of the same table, by position.\<close>

definition frame_and :: "('i, bool) frame \<Rightarrow> ('i, bool) frame \<Rightarrow> ('i, bool) frame" where
  "frame_and a b =
     \<lparr>columns = columns a,
      rows = map2 (\<lambda>x y. (fst x, map2 (\<and>) (snd x) (snd y))) (rows a) (rows b)\<rparr>"

text \<open>\<open>m.all(axis=1)\<close>: per row, whether every entry is true (true for a row without entries).\<close>

definition all_axis1 :: "('i, bool) frame \<Rightarrow> ('i, bool) series" where
  "all_axis1 m = map (\<lambda>r. (fst r, list_all (\<lambda>b. b) (snd r))) (rows m)"

text \<open>
  \<open>df[mask]\<close> with a boolean series: the rows whose mask entry is true, in order, with all
  their cells. A mask over another index is not aligned here and raises.
\<close>

definition getitem_mask :: "('i, 'a) frame \<Rightarrow> ('i, bool) series \<Rightarrow> error + ('i, 'a) frame" where
  "getitem_mask df m =
     (if map fst m = map fst (rows df)
      then Inr \<lparr>columns = columns df, rows = map fst (filter snd (zip (rows df) (map snd m)))\<rparr>
      else Inl IndexingError)"

text \<open>\<open>df.iloc[i, j]\<close> with non-negative positions.\<close>

definition iloc :: "('i, 'a) frame \<Rightarrow> nat \<Rightarrow> nat \<Rightarrow> error + 'a" where
  "iloc df i j =
     (if i < length (rows df) \<and> j < length (columns df) then Inr (snd (rows df ! i) ! j)
      else Inl IndexError)"

section \<open>The outlier remover\<close>

text \<open>
  An \<open>OutlierRemoverIQR\<close> object has the attributes \<open>numerical_columns_\<close> and \<open>stats_\<close> once
  \<open>fit\<close> has assigned them (the fields \<open>numerical_columns_attr\<close> and \<open>stats_attr\<close>);
  \<open>None\<close> is an attribute the object does not have.
\<close>

record estimator =
  numerical_columns_attr :: "string list option"
  stats_attr :: "(string, num) frame option"

definition OutlierRemoverIQR :: estimator where
  "OutlierRemoverIQR = \<lparr>numerical_columns_attr = None, stats_attr = None\<rparr>"

definition attr_numerical_columns :: "estimator \<Rightarrow> error + string list" where
  "attr_numerical_columns self =
     (case numerical_columns_attr self of
        None \<Rightarrow> Inl (AttributeError ''numerical_columns_'')
      | Some cs \<Rightarrow> Inr cs)"

definition attr_stats :: "estimator \<Rightarrow> error + (string, num) frame" where
  "attr_stats self =
     (case stats_attr self of None \<Rightarrow> Inl (AttributeError ''stats_'') | Some st \<Rightarrow> Inr st)"

text \<open>The argument \<open>numerical_columns\<close> of \<open>fit\<close>: one name, or a list of names.\<close>

datatype colsarg = Single string | Many "string list"

text \<open>
  One statement \<open>self.stats_[key] = rhs\<close>: the right-hand side is evaluated on the current
  object, then the column is stored in the statistics table in place. A raised error leaves
  the object as the earlier statements made it.
\<close>

definition assign_stat ::
  "string \<Rightarrow> (estimator \<Rightarrow> error + (string, num) series) \<Rightarrow>
   estimator \<times> (error + unit) \<Rightarrow> estimator \<times> (error + unit)" where
  "assign_stat key rhs st =
     (case st of
        (self, Inl e) \<Rightarrow> (self, Inl e)
      | (self, Inr u) \<Rightarrow>
          (case bind_err (rhs self) (\<lambda>s. bind_err (attr_stats self) (\<lambda>tab. setitem tab key s)) of
             Inl e \<Rightarrow> (self, Inl e)
           | Inr tab' \<Rightarrow> (self\<lparr>stats_attr := Some tab'\<rparr>, Inr ())))"

text \<open>\<open>fit\<close> returns the object as it leaves it, and whether it raised.\<close>

definition fit :: "estimator \<Rightarrow> dataframe \<Rightarrow> colsarg \<Rightarrow> estimator \<times> (error + unit)" where
  "fit self df numerical_columns =
     (let cols = (case numerical_columns of Single s \<Rightarrow> [s] | Many cs \<Rightarrow> cs);
          self1 = self\<lparr>numerical_columns_attr := Some cols\<rparr>;
          self2 = self1\<lparr>stats_attr := Some (DataFrame_index cols)\<rparr>;
          l13 = assign_stat ''Q1''
                  (\<lambda>self. bind_err (attr_numerical_columns self) (\<lambda>cols.
                           bind_err (getitem_list df cols) (\<lambda>sel. quantile sel 0.25)))
                  (self2, Inr ());
          l14 = assign_stat ''Q3''
                  (\<lambda>self. bind_err (attr_numerical_columns self) (\<lambda>cols.
                           bind_err (getitem_list df cols) (\<lambda>sel. quantile sel 0.75)))
                  l13;
          l15 = assign_stat ''IQR''
                  (\<lambda>self. bind_err (attr_stats self) (\<lambda>tab.
                           bind_err (getitem_col tab ''Q3'') (\<lambda>q3.
                           bind_err (getitem_col tab ''Q1'') (\<lambda>q1.
                           Inr (series_sub q3 q1)))))
                  l14;
          l16 = assign_stat ''lower_cutoff''
                  (\<lambda>self. bind_err (attr_stats self) (\<lambda>tab.
                           bind_err (getitem_col tab ''Q1'') (\<lambda>q1.
                           bind_err (getitem_col tab ''IQR'') (\<lambda>iqr.
                           Inr (series_sub q1 (series_scale 1.5 iqr))))))
                  l15;
          l17 = assign_stat ''upper_cutoff''
                  (\<lambda>self. bind_err (attr_stats self) (\<lambda>tab.
                           bind_err (getitem_col tab ''Q3'') (\<lambda>q3.
                           bind_err (getitem_col tab ''IQR'') (\<lambda>iqr.
                           Inr (series_add q3 (series_scale 1.5 iqr))))))
                  l16
      in l17)"

text \<open>The row mask of \<open>transform\<close> (its \<open>final_mask\<close>), and \<open>transform\<close> itself.\<close>

definition final_mask :: "estimator \<Rightarrow> dataframe \<Rightarrow> error + (nat, bool) series" where
  "final_mask self df =
     bind_err (attr_numerical_columns self) (\<lambda>cols1.
     bind_err (getitem_list df cols1) (\<lambda>sel1.
     bind_err (attr_stats self) (\<lambda>tab1.
     bind_err (getitem_col tab1 ''lower_cutoff'') (\<lambda>lower.
     bind_err (frame_cmp num_ge sel1 lower) (\<lambda>ge.
     bind_err (attr_numerical_columns self) (\<lambda>cols2.
     bind_err (getitem_list df cols2) (\<lambda>sel2.
     bind_err (attr_stats self) (\<lambda>tab2.
     bind_err (getitem_col tab2 ''upper_cutoff'') (\<lambda>upper.
     bind_err (frame_cmp num_le sel2 upper) (\<lambda>le.
     Inr (all_axis1 (frame_and ge le))))))))))))"

definition transform :: "estimator \<Rightarrow> dataframe \<Rightarrow> error + dataframe" where
  "transform self df = bind_err (final_mask self df) (\<lambda>m. getitem_mask df m)"

subsection \<open>Objects and references\<close>

text \<open>
  A caller holds a reference to an estimator object. \<open>fit\<close> assigns to the attributes of the
  object it is called on and returns \<open>self\<close>, the same reference; \<open>transform\<close> only reads
  the object.
\<close>

type_synonym ref = nat




section \<open>The specification of the filter\<close>

text \<open>
  The statistics of a column of the reference dataset, in the words of the data model:
  the quartiles by linear interpolation over the non-missing values, their difference, and
  the two cutoffs at one and a half times that difference.
\<close>

definition column_of :: "('i, 'a) frame \<Rightarrow> string \<Rightarrow> 'a list" where
  "column_of df c =
     (case positions (columns df) c of [] \<Rightarrow> [] | p # _ \<Rightarrow> column_cells df p)"

definition Q1 :: "dataframe \<Rightarrow> string \<Rightarrow> num" where
  "Q1 ref c = nanpercentile (column_of ref c) (1 / 4)"

definition Q3 :: "dataframe \<Rightarrow> string \<Rightarrow> num" where
  "Q3 ref c = nanpercentile (column_of ref c) (3 / 4)"

definition IQR :: "dataframe \<Rightarrow> string \<Rightarrow> num" where
  "IQR ref c = num_sub (Q3 ref c) (Q1 ref c)"

definition lower_cutoff :: "dataframe \<Rightarrow> string \<Rightarrow> num" where
  "lower_cutoff ref c = num_sub (Q1 ref c) (num_mul (Val (3 / 2)) (IQR ref c))"

definition upper_cutoff :: "dataframe \<Rightarrow> string \<Rightarrow> num" where
  "upper_cutoff ref c = num_add (Q3 ref c) (num_mul (Val (3 / 2)) (IQR ref c))"

text \<open>
  The fitted state: the selected columns and, per selected column, its five statistics.
\<close>

definition stats_table :: "dataframe \<Rightarrow> string list \<Rightarrow> (string, num) frame" where
  "stats_table ref cols =
     \<lparr>columns = [''Q1'', ''Q3'', ''IQR'', ''lower_cutoff'', ''upper_cutoff''],
      rows = map (\<lambda>c. (c, [Q1 ref c, Q3 ref c, IQR ref c, lower_cutoff ref c, upper_cutoff ref c]))
               cols\<rparr>"

definition fitted_state :: "dataframe \<Rightarrow> string list \<Rightarrow> estimator" where
  "fitted_state ref cols =
     \<lparr>numerical_columns_attr = Some cols, stats_attr = Some (stats_table ref cols)\<rparr>"

fun names_of :: "colsarg \<Rightarrow> string list" where
  "names_of (Single s) = [s]"
| "names_of (Many cs) = cs"

text \<open>
  A dataset contains the selected columns when each selected name is the name of exactly one
  of its columns; the value of a row in such a column is then defined. The selected columns
  are numeric when none of their cells is a text.
\<close>

definition has_columns :: "('i, 'a) frame \<Rightarrow> string list \<Rightarrow> bool" where
  "has_columns df cols = list_all (\<lambda>c. length (positions (columns df) c) = 1) cols"

definition row_value :: "('i, 'a) frame \<Rightarrow> 'i \<times> 'a list \<Rightarrow> string \<Rightarrow> 'a option" where
  "row_value df r c = (case positions (columns df) c of [p] \<Rightarrow> Some (snd r ! p) | _ \<Rightarrow> None)"

text \<open>
  The selected columns of such a dataset, in the order of the selection.
\<close>

definition selection :: "('i, 'a) frame \<Rightarrow> string list \<Rightarrow> ('i, 'a) frame" where
  "selection df cols =
     \<lparr>columns = cols,
      rows = map (\<lambda>r. (fst r, map (\<lambda>c. snd r ! hd (positions (columns df) c)) cols)) (rows df)\<rparr>"

fun is_text :: "cell option \<Rightarrow> bool" where
  "is_text (Some (Str s)) = True"
| "is_text _ = False"

definition numeric_on :: "('i, cell) frame \<Rightarrow> string list \<Rightarrow> bool" where
  "numeric_on df cols =
     list_all (\<lambda>r. list_all (\<lambda>c. \<not> is_text (row_value df r c)) cols) (rows df)"

text \<open>
  The keep decision of a row: on every selected column its value lies between the cutoffs
  of that column, bounds included. A missing value, or a missing cutoff, is not in range.
\<close>

fun in_range :: "num \<Rightarrow> cell option \<Rightarrow> num \<Rightarrow> bool" where
  "in_range (Val lo) (Some (Num (Val x))) (Val hi) = (lo \<le> x \<and> x \<le> hi)"
| "in_range _ _ _ = False"

definition keep_row :: "dataframe \<Rightarrow> string list \<Rightarrow> dataframe \<Rightarrow> nat \<times> cell list \<Rightarrow> bool" where
  "keep_row ref cols df r =
     list_all (\<lambda>c. in_range (lower_cutoff ref c) (row_value df r c) (upper_cutoff ref c)) cols"

section \<open>Pairs of highly correlated variables\<close>

text \<open>
  \<open>plot_high_correlation_scatter\<close> first collects the pairs: the outer loop runs over the
  positions \<open>i\<close> of the matrix' columns, the inner loop over the positions \<open>j\<close> after \<open>i\<close>; a
  pair is appended when the absolute value of the matrix entry reaches the threshold.
\<close>

type_synonym triple = "string \<times> string \<times> num"

fun inner_loop ::
  "(string, num) frame \<Rightarrow> num \<Rightarrow> nat \<Rightarrow> nat list \<Rightarrow> triple list \<Rightarrow> error + triple list" where
  "inner_loop cm threshold i [] corr_pairs = Inr corr_pairs"
| "inner_loop cm threshold i (j # js) corr_pairs =
     (case iloc cm i j of
        Inl e \<Rightarrow> Inl e
      | Inr val \<Rightarrow>
          inner_loop cm threshold i js
            (if num_ge (num_abs val) threshold
             then corr_pairs @ [(columns cm ! i, columns cm ! j, val)]
             else corr_pairs))"

fun outer_loop ::
  "(string, num) frame \<Rightarrow> num \<Rightarrow> nat list \<Rightarrow> triple list \<Rightarrow> error + triple list" where
  "outer_loop cm threshold [] corr_pairs = Inr corr_pairs"
| "outer_loop cm threshold (i # is) corr_pairs =
     (case inner_loop cm threshold i [i + 1..<length (columns cm)] corr_pairs of
        Inl e \<Rightarrow> Inl e
      | Inr corr_pairs' \<Rightarrow> outer_loop cm threshold is corr_pairs')"

text \<open>
  The drawing of the grid of scatter plots is done by the plotting library: \<open>draw\<close> stands
  for it and tells whether it raised. The number of grid rows is computed before, by an
  integer division by \<open>n_cols\<close>.
\<close>

definition plot_high_correlation_scatter ::
  "(dataframe \<Rightarrow> triple list \<Rightarrow> int \<Rightarrow> int \<Rightarrow> error option) \<Rightarrow>
   dataframe \<Rightarrow> (string, num) frame \<Rightarrow> num \<Rightarrow> int \<Rightarrow> error + triple list" where
  "plot_high_correlation_scatter draw df correlation_matrix threshold n_cols =
     bind_err (outer_loop correlation_matrix threshold
                 [0..<length (columns correlation_matrix)] []) (\<lambda>corr_pairs.
       if corr_pairs = [] then Inr []
       else let n_plots = int (length corr_pairs) in
         if n_cols = 0 then Inl ZeroDivisionError
         else let n_rows = (n_plots + n_cols - 1) div n_cols in
           (case draw df corr_pairs n_rows n_cols of
              Some e \<Rightarrow> Inl e
            | None \<Rightarrow> Inr corr_pairs))"

text \<open>
  The pairs in the words of the specification: the entries of the strict upper triangle,
  row by row, whose absolute value is at least the threshold.
\<close>

definition entry :: "(string, num) frame \<Rightarrow> nat \<Rightarrow> nat \<Rightarrow> num" where
  "entry cm i j = snd (rows cm ! i) ! j"

definition upper_triangle_pairs :: "(string, num) frame \<Rightarrow> num \<Rightarrow> triple list" where
  "upper_triangle_pairs cm threshold =
     concat (map (\<lambda>i. map (\<lambda>j. (columns cm ! i, columns cm ! j, entry cm i j))
                         (filter (\<lambda>j. num_ge (num_abs (entry cm i j)) threshold)
                            [i + 1..<length (columns cm)]))
               [0..<length (columns cm)])"

section \<open>Sample data\<close>

text \<open>The column \<open>x\<close> with the values 1 to 9 and 100, and the state fitted on it.\<close>

definition sample_column :: dataframe where
  "sample_column =
     \<lparr>columns = [''x''],
      rows = [(0, [Num (Val 1)]), (1, [Num (Val 2)]), (2, [Num (Val 3)]), (3, [Num (Val 4)]),
              (4, [Num (Val 5)]), (5, [Num (Val 6)]), (6, [Num (Val 7)]), (7, [Num (Val 8)]),
              (8, [Num (Val 9)]), (9, [Num (Val 100)])]\<rparr>"

definition sample_state :: estimator where
  "sample_state =
     \<lparr>numerical_columns_attr = Some [''x''],
      stats_attr =
        Some \<lparr>columns = [''Q1'', ''Q3'', ''IQR'', ''lower_cutoff'', ''upper_cutoff''],
              rows = [(''x'', [Val 3.25, Val 7.75, Val 4.5, Val (- 3.5), Val 14.5])]\<rparr>\<rparr>"

definition sample_kept :: dataframe where
  "sample_kept =
     \<lparr>columns = [''x''],
      rows = [(0, [Num (Val 1)]), (1, [Num (Val 2)]), (2, [Num (Val 3)]), (3, [Num (Val 4)]),
              (4, [Num (Val 5)]), (5, [Num (Val 6)]), (6, [Num (Val 7)]), (7, [Num (Val 8)]),
              (8, [Num (Val 9)])]\<rparr>"


text \<open>
  A table with two numeric columns and a categorical one between them. Row 3 is out of range
  on \<open>chol\<close> only, row 5 on \<open>age\<close> only, and row 6 has no \<open>age\<close>.
\<close>

definition sample_table :: dataframe where
  "sample_table =
     \<lparr>columns = [''age'', ''sex'', ''chol''],
      rows = [(0, [Num (Val 50), Str ''M'', Num (Val 200)]),
              (1, [Num (Val 52), Str ''F'', Num (Val 210)]),
              (2, [Num (Val 51), Str ''M'', Num (Val 205)]),
              (3, [Num (Val 53), Str ''F'', Num (Val 900)]),
              (4, [Num (Val 49), Str ''M'', Num (Val 195)]),
              (5, [Num (Val 120), Str ''F'', Num (Val 202)]),
              (6, [Num NaN, Str ''M'', Num (Val 201)])]\<rparr>"

definition sample_table_state :: estimator where
  "sample_table_state =
     \<lparr>numerical_columns_attr = Some [''age'', ''chol''],
      stats_attr =
        Some \<lparr>columns = [''Q1'', ''Q3'', ''IQR'', ''lower_cutoff'', ''upper_cutoff''],
              rows = [(''age'', [Val 50.25, Val 52.75, Val 2.5, Val 46.5, Val 56.5]),
                      (''chol'', [Val 200.5, Val 207.5, Val 7, Val 190, Val 218])]\<rparr>\<rparr>"



text \<open>A correlation matrix of three variables.\<close>

definition sample_corr :: "(string, num) frame" where
  "sample_corr =
     \<lparr>columns = [''age'', ''chol'', ''bp''],
      rows = [(''age'', [Val 1, Val 0.7, Val (- 0.2)]),
              (''chol'', [Val 0.7, Val 1, Val (- 0.6)]),
              (''bp'', [Val (- 0.2), Val (- 0.6), Val 1])]\<rparr>"

section \<open>Auxiliary facts\<close>

subsection \<open>Column positions and selections\<close>

lemma positions_from_bounds:
  "p \<in> set (positions_from n cs k) \<Longrightarrow> n \<le> p \<and> p < n + length cs \<and> cs ! (p - n) = k"
proof (induction cs arbitrary: n)
  case Nil
  then show ?case by simp
next
  case (Cons c cs)
  show ?case
  proof (cases "p \<in> set (positions_from (Suc n) cs k)")
    case True
    from Cons.IH[OF True]
    have b: "Suc n \<le> p" "p < Suc n + length cs" "cs ! (p - Suc n) = k"
      by simp_all
    from b(1) have "p - n = Suc (p - Suc n)" by arith
    with b show ?thesis by simp
  next
    case False
    with Cons.prems have "p = n \<and> c = k"
      by (auto split: if_splits)
    then show ?thesis by simp
  qed
qed

lemma positions_nth: "p \<in> set (positions cs k) \<Longrightarrow> p < length cs \<and> cs ! p = k"
  using positions_from_bounds[of p 0 cs k] by (simp add: positions_def)

lemma positions_single:
  assumes "length (positions cs k) = Suc 0"
  shows "positions cs k = [hd (positions cs k)]"
    and "hd (positions cs k) < length cs" and "cs ! hd (positions cs k) = k"
proof -
  from assms show one: "positions cs k = [hd (positions cs k)]"
    by (cases "positions cs k") auto
  then have "hd (positions cs k) \<in> set (positions cs k)"
    by (metis list.set_intros(1))
  then show "hd (positions cs k) < length cs" and "cs ! hd (positions cs k) = k"
    using positions_nth by blast+
qed

lemma has_columns_concat:
  "has_columns df cols \<Longrightarrow>
   concat (map (positions (columns df)) cols) = map (\<lambda>c. hd (positions (columns df) c)) cols"
  by (induction cols) (auto simp: has_columns_def dest: positions_single(1))

lemma has_columns_names:
  "has_columns df cols \<Longrightarrow> map (\<lambda>c. columns df ! hd (positions (columns df) c)) cols = cols"
  by (induction cols) (auto simp: has_columns_def positions_single(3))

lemma has_columns_present:
  "has_columns df cols \<Longrightarrow> list_all (\<lambda>k. positions (columns df) k \<noteq> []) cols"
  by (induction cols) (auto simp: has_columns_def)

lemma getitem_list_has_columns:
  assumes "has_columns df cols"
  shows "getitem_list df cols =
     Inr \<lparr>columns = cols,
          rows = map (\<lambda>r. (fst r, map (\<lambda>c. snd r ! hd (positions (columns df) c)) cols)) (rows df)\<rparr>"
  using assms has_columns_present[OF assms]
  by (simp add: getitem_list_def has_columns_concat has_columns_names comp_def)

lemma row_value_has_columns:
  "has_columns df cols \<Longrightarrow> c \<in> set cols \<Longrightarrow>
   row_value df r c = Some (snd r ! hd (positions (columns df) c))"
  using positions_single(1)[of "columns df" c]
  by (auto simp: row_value_def has_columns_def list_all_iff split: list.splits)

lemma has_text_selection:
  assumes "has_columns df cols"
  shows "has_text (selection df cols) \<longleftrightarrow> \<not> numeric_on df cols"
proof -
  have "is_Str (snd r ! hd (positions (columns df) c)) \<longleftrightarrow> is_text (row_value df r c)"
    if "c \<in> set cols" for r :: "'a \<times> cell list" and c
    using row_value_has_columns[OF assms that, of r]
    by (cases "snd r ! hd (positions (columns df) c)") auto
  then show ?thesis
    by (auto simp: has_text_def selection_def numeric_on_def list_ex_iff list_all_iff)
qed

lemma map_upt_nth: "map (\<lambda>p. f (xs ! p)) [0..<length xs] = map f xs"
  by (rule nth_equalityI) auto

lemma column_cells_selection:
  assumes "has_columns df cols" "p < length cols"
  shows "column_cells (selection df cols) p = column_of df (cols ! p)"
proof -
  from assms have "length (positions (columns df) (cols ! p)) = Suc 0"
    by (simp add: has_columns_def list_all_length)
  from positions_single(1)[OF this] show ?thesis
    using assms(2)
    by (auto simp: column_cells_def selection_def column_of_def split: list.splits)
qed

lemma quantile_selection:
  assumes "has_columns df cols" "numeric_on df cols"
  shows "quantile (selection df cols) q =
           Inr (map (\<lambda>c. (c, nanpercentile (column_of df c) q)) cols)"
proof -
  have "map (\<lambda>p. (columns (selection df cols) ! p,
                  nanpercentile (column_cells (selection df cols) p) q))
          [0..<length (columns (selection df cols))] =
        map (\<lambda>p. (\<lambda>c. (c, nanpercentile (column_of df c) q)) (cols ! p)) [0..<length cols]"
    using column_cells_selection[OF assms(1)] by (simp add: selection_def)
  also have "\<dots> = map (\<lambda>c. (c, nanpercentile (column_of df c) q)) cols"
    by (rule map_upt_nth)
  finally show ?thesis
    using has_text_selection[OF assms(1)] assms(2) by (simp add: quantile_def)
qed

lemma map2_same: "map2 f (map g xs) (map h xs) = map (\<lambda>x. f (g x) (h x)) xs"
  by (induction xs) auto

lemma setitem_aligned:
  assumes "positions cs key = []"
  shows "setitem \<lparr>columns = cs, rows = map (\<lambda>c. (c, f c)) cols\<rparr> key (map (\<lambda>c. (c, g c)) cols) =
         Inr \<lparr>columns = cs @ [key], rows = map (\<lambda>c. (c, f c @ [g c])) cols\<rparr>"
  using assms by (simp add: setitem_def put_col_def comp_def map2_same)

lemma getitem_col_table:
  assumes "positions cs key = p # ps"
  shows "getitem_col \<lparr>columns = cs, rows = map (\<lambda>c. (c, f c)) cols\<rparr> key =
         Inr (map (\<lambda>c. (c, f c ! p)) cols)"
  using assms by (simp add: getitem_col_def comp_def)

lemma series_sub_same:
  "series_sub (map (\<lambda>c. (c, a c)) cols) (map (\<lambda>c. (c, b c)) cols) =
   map (\<lambda>c. (c, num_sub (a c) (b c))) cols"
  by (simp add: series_sub_def map2_same)

lemma series_add_same:
  "series_add (map (\<lambda>c. (c, a c)) cols) (map (\<lambda>c. (c, b c)) cols) =
   map (\<lambda>c. (c, num_add (a c) (b c))) cols"
  by (simp add: series_add_def map2_same)

lemma series_scale_same:
  "series_scale k (map (\<lambda>c. (c, a c)) cols) = map (\<lambda>c. (c, num_mul (Val k) (a c))) cols"
  by (simp add: series_scale_def comp_def)

lemma assign_stat_ok:
  assumes "rhs self = Inr s" "stats_attr self = Some tab" "setitem tab key s = Inr tab'"
  shows "assign_stat key rhs (self, Inr ()) = (self\<lparr>stats_attr := Some tab'\<rparr>, Inr ())"
  using assms by (simp add: assign_stat_def bind_err_def attr_stats_def)

lemma fit_result:
  assumes hc: "has_columns ref (names_of numerical_columns)"
    and nu: "numeric_on ref (names_of numerical_columns)"
  shows "fit self ref numerical_columns =
           (fitted_state ref (names_of numerical_columns), Inr ())"
proof -
  define cols where "cols = names_of numerical_columns"
  define tab where "tab = (\<lambda>cs f. \<lparr>columns = cs, rows = map (\<lambda>c. (c, f c)) cols\<rparr> :: (string, num) frame)"
  define obj where "obj = (\<lambda>t. \<lparr>numerical_columns_attr = Some cols, stats_attr = Some t\<rparr>)"
  have cols: "(case numerical_columns of Single s \<Rightarrow> [s] | Many cs \<Rightarrow> cs) = cols"
    by (cases numerical_columns) (simp_all add: cols_def)
  have sel: "getitem_list ref cols = Inr (selection ref cols)"
    using hc by (simp add: cols_def getitem_list_has_columns selection_def)
  have q: "quantile (selection ref cols) q = Inr (map (\<lambda>c. (c, nanpercentile (column_of ref c) q)) cols)" for q
    using hc nu by (simp add: cols_def quantile_selection)
  have s0: "self\<lparr>numerical_columns_attr := Some cols, stats_attr := Some (DataFrame_index cols)\<rparr>
            = obj (tab [] (\<lambda>c. []))"
    by (cases self) (simp add: obj_def tab_def DataFrame_index_def)
  have l13: "assign_stat ''Q1''
                  (\<lambda>self. bind_err (attr_numerical_columns self) (\<lambda>cols.
                           bind_err (getitem_list ref cols) (\<lambda>sel. quantile sel 0.25)))
                  (obj (tab [] (\<lambda>c. [])), Inr ()) =
             (obj (tab [''Q1''] (\<lambda>c. [Q1 ref c])), Inr ())"
    by (subst assign_stat_ok[where tab = "tab [] (\<lambda>c. [])"
          and s = "map (\<lambda>c. (c, Q1 ref c)) cols" and tab' = "tab [''Q1''] (\<lambda>c. [Q1 ref c])"])
       (simp_all add: obj_def tab_def bind_err_def attr_numerical_columns_def sel q Q1_def
          setitem_aligned positions_def)
  have l14: "assign_stat ''Q3''
                  (\<lambda>self. bind_err (attr_numerical_columns self) (\<lambda>cols.
                           bind_err (getitem_list ref cols) (\<lambda>sel. quantile sel 0.75)))
                  (obj (tab [''Q1''] (\<lambda>c. [Q1 ref c])), Inr ()) =
             (obj (tab [''Q1'', ''Q3''] (\<lambda>c. [Q1 ref c, Q3 ref c])), Inr ())"
    by (subst assign_stat_ok[where tab = "tab [''Q1''] (\<lambda>c. [Q1 ref c])"
          and s = "map (\<lambda>c. (c, Q3 ref c)) cols"
          and tab' = "tab [''Q1'', ''Q3''] (\<lambda>c. [Q1 ref c, Q3 ref c])"])
       (simp_all add: obj_def tab_def bind_err_def attr_numerical_columns_def sel q Q3_def
          setitem_aligned positions_def)
  have l15: "assign_stat ''IQR''
                  (\<lambda>self. bind_err (attr_stats self) (\<lambda>tab.
                           bind_err (getitem_col tab ''Q3'') (\<lambda>q3.
                           bind_err (getitem_col tab ''Q1'') (\<lambda>q1.
                           Inr (series_sub q3 q1)))))
                  (obj (tab [''Q1'', ''Q3''] (\<lambda>c. [Q1 ref c, Q3 ref c])), Inr ()) =
             (obj (tab [''Q1'', ''Q3'', ''IQR''] (\<lambda>c. [Q1 ref c, Q3 ref c, IQR ref c])), Inr ())"
    by (subst assign_stat_ok[where tab = "tab [''Q1'', ''Q3''] (\<lambda>c. [Q1 ref c, Q3 ref c])"
          and s = "map (\<lambda>c. (c, IQR ref c)) cols"
          and tab' = "tab [''Q1'', ''Q3'', ''IQR''] (\<lambda>c. [Q1 ref c, Q3 ref c, IQR ref c])"])
       (simp_all add: obj_def tab_def bind_err_def attr_stats_def IQR_def
          setitem_aligned getitem_col_table positions_def series_sub_same)
  have l16: "assign_stat ''lower_cutoff''
                  (\<lambda>self. bind_err (attr_stats self) (\<lambda>tab.
                           bind_err (getitem_col tab ''Q1'') (\<lambda>q1.
                           bind_err (getitem_col tab ''IQR'') (\<lambda>iqr.
                           Inr (series_sub q1 (series_scale 1.5 iqr))))))
                  (obj (tab [''Q1'', ''Q3'', ''IQR''] (\<lambda>c. [Q1 ref c, Q3 ref c, IQR ref c])), Inr ()) =
             (obj (tab [''Q1'', ''Q3'', ''IQR'', ''lower_cutoff'']
                    (\<lambda>c. [Q1 ref c, Q3 ref c, IQR ref c, lower_cutoff ref c])), Inr ())"
    by (subst assign_stat_ok[where tab = "tab [''Q1'', ''Q3'', ''IQR''] (\<lambda>c. [Q1 ref c, Q3 ref c, IQR ref c])"
          and s = "map (\<lambda>c. (c, lower_cutoff ref c)) cols"
          and tab' = "tab [''Q1'', ''Q3'', ''IQR'', ''lower_cutoff'']
                    (\<lambda>c. [Q1 ref c, Q3 ref c, IQR ref c, lower_cutoff ref c])"])
       (simp_all add: obj_def tab_def bind_err_def attr_stats_def lower_cutoff_def
          setitem_aligned getitem_col_table positions_def series_sub_same series_scale_same)
  have l17: "assign_stat ''upper_cutoff''
                  (\<lambda>self. bind_err (attr_stats self) (\<lambda>tab.
                           bind_err (getitem_col tab ''Q3'') (\<lambda>q3.
                           bind_err (getitem_col tab ''IQR'') (\<lambda>iqr.
                           Inr (series_add q3 (series_scale 1.5 iqr))))))
                  (obj (tab [''Q1'', ''Q3'', ''IQR'', ''lower_cutoff'']
                    (\<lambda>c. [Q1 ref c, Q3 ref c, IQR ref c, lower_cutoff ref c])), Inr ()) =
             (obj (tab [''Q1'', ''Q3'', ''IQR'', ''lower_cutoff'', ''upper_cutoff'']
                    (\<lambda>c. [Q1 ref c, Q3 ref c, IQR ref c, lower_cutoff ref c, upper_cutoff ref c])), Inr ())"
    by (subst assign_stat_ok[where tab = "tab [''Q1'', ''Q3'', ''IQR'', ''lower_cutoff'']
                    (\<lambda>c. [Q1 ref c, Q3 ref c, IQR ref c, lower_cutoff ref c])"
          and s = "map (\<lambda>c. (c, upper_cutoff ref c)) cols"
          and tab' = "tab [''Q1'', ''Q3'', ''IQR'', ''lower_cutoff'', ''upper_cutoff'']
                    (\<lambda>c. [Q1 ref c, Q3 ref c, IQR ref c, lower_cutoff ref c, upper_cutoff ref c])"])
       (simp_all add: obj_def tab_def bind_err_def attr_stats_def upper_cutoff_def
          setitem_aligned getitem_col_table positions_def series_add_same series_scale_same)
  have "fit self ref numerical_columns =
          (obj (tab [''Q1'', ''Q3'', ''IQR'', ''lower_cutoff'', ''upper_cutoff'']
                    (\<lambda>c. [Q1 ref c, Q3 ref c, IQR ref c, lower_cutoff ref c, upper_cutoff ref c])), Inr ())"
    unfolding fit_def Let_def cols s0 l13 l14 l15 l16 l17 ..
  then show ?thesis
    by (simp add: obj_def tab_def fitted_state_def stats_table_def cols_def)
qed

lemma cmp_in_range:
  "(cell_cmp num_ge x lo \<and> cell_cmp num_le x hi) = in_range lo (Some x) hi"
  by (cases x; cases lo; cases hi) (auto elim: num_ge.elims num_le.elims in_range.elims)

lemma frame_cmp_selection:
  assumes "has_columns df cols" "numeric_on df cols"
  shows "frame_cmp cmp (selection df cols) (map (\<lambda>c. (c, g c)) cols) =
         Inr \<lparr>columns = cols,
              rows = map (\<lambda>r. (fst r, map (\<lambda>c. cell_cmp cmp (snd r ! hd (positions (columns df) c)) (g c)) cols))
                       (rows df)\<rparr>"
proof -
  have "\<not> has_text (selection df cols)"
    using has_text_selection[OF assms(1)] assms(2) by simp
  then show ?thesis
    by (simp add: frame_cmp_def selection_def comp_def map2_same)
qed

lemma filter_zip_mask: "map fst (filter snd (zip xs (map P xs))) = filter P xs"
  by (induction xs) auto

lemma list_all_map2_and:
  "list_all (\<lambda>b. b) (map2 (\<and>) (map A cols) (map B cols)) = list_all (\<lambda>c. A c \<and> B c) cols"
  by (induction cols) auto

lemma all_and_masks:
  "all_axis1 (frame_and \<lparr>columns = cs, rows = map (\<lambda>r. (fst r, map (A r) cols)) rs\<rparr>
                        \<lparr>columns = cs', rows = map (\<lambda>r. (fst r, map (B r) cols)) rs\<rparr>) =
   map (\<lambda>r. (fst r, list_all (\<lambda>c. A r c \<and> B r c) cols)) rs"
proof -
  have "rows (frame_and \<lparr>columns = cs, rows = map (\<lambda>r. (fst r, map (A r) cols)) rs\<rparr>
                        \<lparr>columns = cs', rows = map (\<lambda>r. (fst r, map (B r) cols)) rs\<rparr>) =
        map (\<lambda>r. (fst r, map2 (\<and>) (map (A r) cols) (map (B r) cols))) rs"
    unfolding frame_and_def by (simp add: map2_same)
  then show ?thesis
    by (simp add: all_axis1_def list_all_map2_and)
qed

lemma final_mask_fitted:
  assumes hc: "has_columns df cols" and nu: "numeric_on df cols"
  shows "final_mask (fitted_state ref cols) df =
           Inr (map (\<lambda>r. (fst r, keep_row ref cols df r)) (rows df))"
proof -
  have a: "attr_numerical_columns (fitted_state ref cols) = Inr cols"
    and t: "attr_stats (fitted_state ref cols) = Inr (stats_table ref cols)"
    by (simp_all add: attr_numerical_columns_def attr_stats_def fitted_state_def)
  have sel: "getitem_list df cols = Inr (selection df cols)"
    using hc by (simp add: getitem_list_has_columns selection_def)
  have lo: "getitem_col (stats_table ref cols) ''lower_cutoff'' =
              Inr (map (\<lambda>c. (c, lower_cutoff ref c)) cols)"
    unfolding stats_table_def
    by (subst getitem_col_table[where p = 3 and ps = "[]"]) (simp_all add: positions_def)
  have hi: "getitem_col (stats_table ref cols) ''upper_cutoff'' =
              Inr (map (\<lambda>c. (c, upper_cutoff ref c)) cols)"
    unfolding stats_table_def
    by (subst getitem_col_table[where p = 4 and ps = "[]"]) (simp_all add: positions_def)
  have keep: "list_all (\<lambda>c. cell_cmp num_ge (snd r ! hd (positions (columns df) c)) (lower_cutoff ref c) \<and>
                            cell_cmp num_le (snd r ! hd (positions (columns df) c)) (upper_cutoff ref c)) cols
              = keep_row ref cols df r" for r
    using row_value_has_columns[OF hc, of _ r]
    by (simp add: keep_row_def list_all_iff cmp_in_range)
  have "final_mask (fitted_state ref cols) df =
          Inr (all_axis1 (frame_and
            \<lparr>columns = cols,
             rows = map (\<lambda>r. (fst r, map (\<lambda>c. cell_cmp num_ge (snd r ! hd (positions (columns df) c)) (lower_cutoff ref c)) cols))
                       (rows df)\<rparr>
            \<lparr>columns = cols,
             rows = map (\<lambda>r. (fst r, map (\<lambda>c. cell_cmp num_le (snd r ! hd (positions (columns df) c)) (upper_cutoff ref c)) cols))
                       (rows df)\<rparr>))"
    unfolding final_mask_def
    by (simp add: bind_err_def a t sel lo hi frame_cmp_selection[OF hc nu])
  also have "\<dots> = Inr (map (\<lambda>r. (fst r, keep_row ref cols df r)) (rows df))"
    unfolding all_and_masks by (simp add: keep)
  finally show ?thesis .
qed

lemma transform_fitted:
  assumes hc: "has_columns df cols" and nu: "numeric_on df cols"
  shows "transform (fitted_state ref cols) df =
           Inr \<lparr>columns = columns df, rows = filter (keep_row ref cols df) (rows df)\<rparr>"
  unfolding transform_def final_mask_fitted[OF hc nu]
  by (simp add: bind_err_def getitem_mask_def comp_def filter_zip_mask)

lemma positions_names:
  "map (\<lambda>p. cs ! p) (positions cs k) = replicate (length (positions cs k)) k"
  by (rule nth_equalityI) (auto dest: positions_nth nth_mem)

lemma sum_list_ge_length:
  "list_all (\<lambda>k. 1 \<le> n k) keys \<Longrightarrow> length keys \<le> sum_list (map n keys)"
  by (induction keys) (auto simp: add_mono)

lemma replicated_same_length:
  assumes "list_all (\<lambda>k. 1 \<le> n k) keys"
    and "sum_list (map n keys) = length keys"
  shows "list_all (\<lambda>k. n k = Suc 0) keys"
  using assms
proof (induction keys)
  case Nil
  then show ?case by simp
next
  case (Cons k ks)
  from Cons.prems(1) have k: "1 \<le> n k" and ks: "list_all (\<lambda>k. 1 \<le> n k) ks"
    by simp_all
  from sum_list_ge_length[OF ks] Cons.prems(2) k
  have "n k = Suc 0" "sum_list (map n ks) = length ks"
    by simp_all
  with Cons.IH[OF ks] show ?case by simp
qed

lemma replicated_distinct:
  "distinct (concat (map (\<lambda>k. replicate (n k) k) keys)) \<Longrightarrow> list_all (\<lambda>k. n k \<le> Suc 0) keys"
proof (induction keys)
  case Nil
  then show ?case by simp
next
  case (Cons k ks)
  from Cons.prems have "distinct (replicate (n k) k)"
    and "distinct (concat (map (\<lambda>k. replicate (n k) k) ks))"
    by simp_all
  with Cons.IH show ?case
    by (cases "n k"; cases "n k - 1") auto
qed

lemma selected_names:
  "columns \<lparr>columns = map (\<lambda>p. cs ! p) (concat (map (positions cs) keys)), rows = rs\<rparr> =
   concat (map (\<lambda>k. replicate (length (positions cs k)) k) keys)"
  by (simp add: map_concat comp_def positions_names)

lemma names_once:
  assumes present: "list_all (\<lambda>k. positions cs k \<noteq> []) keys"
    and ok: "concat (map (\<lambda>k. replicate (length (positions cs k)) k) keys) = keys \<or>
             distinct (concat (map (\<lambda>k. replicate (length (positions cs k)) k) keys))"
  shows "list_all (\<lambda>k. length (positions cs k) = Suc 0) keys"
proof -
  have ge: "list_all (\<lambda>k. 1 \<le> length (positions cs k)) keys"
    using present by (auto simp: list_all_iff Suc_le_eq)
  from ok show ?thesis
  proof
    assume "concat (map (\<lambda>k. replicate (length (positions cs k)) k) keys) = keys"
    then have "length (concat (map (\<lambda>k. replicate (length (positions cs k)) k) keys)) = length keys"
      by simp
    then have "sum_list (map (\<lambda>k. length (positions cs k)) keys) = length keys"
      by (simp add: length_concat comp_def)
    from replicated_same_length[OF ge this] show ?thesis .
  next
    assume "distinct (concat (map (\<lambda>k. replicate (length (positions cs k)) k) keys))"
    from replicated_distinct[OF this] ge show ?thesis
      by (auto simp: list_all_iff intro: le_antisym)
  qed
qed

lemma assign_stat_Inr:
  assumes "snd (assign_stat key rhs st) = Inr u"
  shows "\<exists>s tab tab'. snd st = Inr () \<and> rhs (fst st) = Inr s \<and> stats_attr (fst st) = Some tab
           \<and> setitem tab key s = Inr tab'"
  using assms
  by (cases st)
     (auto simp: assign_stat_def bind_err_def attr_stats_def split: sum.splits option.splits)

lemma fit_success:
  assumes "snd (fit self ref numerical_columns) = Inr ()"
  shows "has_columns ref (names_of numerical_columns) \<and> numeric_on ref (names_of numerical_columns)"
proof -
  define cols where "cols = names_of numerical_columns"
  define self2 where "self2 =
     self\<lparr>numerical_columns_attr := Some cols, stats_attr := Some (DataFrame_index cols)\<rparr>"
  define rhs13 where "rhs13 = (\<lambda>self. bind_err (attr_numerical_columns self) (\<lambda>cols.
                           bind_err (getitem_list ref cols) (\<lambda>sel. quantile sel 0.25)))"
  have cols: "(case numerical_columns of Single s \<Rightarrow> [s] | Many cs \<Rightarrow> cs) = cols"
    by (cases numerical_columns) (simp_all add: cols_def)
  from assms have "snd (assign_stat ''Q1'' rhs13 (self2, Inr ())) = Inr ()"
    unfolding fit_def Let_def cols self2_def[symmetric] rhs13_def[symmetric]
    by (auto dest!: assign_stat_Inr)
  from assign_stat_Inr[OF this] obtain s tab tab'
    where r: "rhs13 self2 = Inr s" and t: "stats_attr self2 = Some tab"
      and st: "setitem tab ''Q1'' s = Inr tab'"
    by auto
  from t have tab: "tab = DataFrame_index cols"
    by (simp add: self2_def)
  from r obtain sel where sel: "getitem_list ref cols = Inr sel" and q: "quantile sel 0.25 = Inr s"
    by (auto simp: rhs13_def self2_def attr_numerical_columns_def bind_err_def split: sum.splits)
  from sel have present: "list_all (\<lambda>k. positions (columns ref) k \<noteq> []) cols"
    and seleq: "sel = \<lparr>columns = map (\<lambda>p. columns ref ! p) (concat (map (positions (columns ref)) cols)),
                       rows = map (\<lambda>r. (fst r, map (\<lambda>p. snd r ! p) (concat (map (positions (columns ref)) cols))))
                                (rows ref)\<rparr>"
    by (auto simp: getitem_list_def Let_def split: if_splits)
  from q have nt: "\<not> has_text sel" and "map fst s = columns sel"
    by (auto simp: quantile_def comp_def map_nth split: if_splits)
  then have names: "map fst s = concat (map (\<lambda>k. replicate (length (positions (columns ref) k)) k) cols)"
    by (subst (asm) seleq) (simp only: selected_names)
  from st have "map fst s = cols \<or> distinct (map fst s)"
    by (auto simp: setitem_def tab DataFrame_index_def comp_def split: if_splits)
  with names have "list_all (\<lambda>k. length (positions (columns ref) k) = Suc 0) cols"
    using names_once[OF present] by simp
  then have hc: "has_columns ref cols"
    by (simp add: has_columns_def)
  from sel have "sel = selection ref cols"
    by (simp add: getitem_list_has_columns[OF hc] selection_def)
  with nt has_text_selection[OF hc] have "numeric_on ref cols"
    by simp
  with hc show ?thesis
    by (simp add: cols_def)
qed

lemma fit_fitted:
  assumes "fit self ref numerical_columns = (obj, Inr ())"
  shows "obj = fitted_state ref (names_of numerical_columns)"
    and "has_columns ref (names_of numerical_columns)"
    and "numeric_on ref (names_of numerical_columns)"
proof -
  from assms have "snd (fit self ref numerical_columns) = Inr ()" by simp
  from fit_success[OF this]
  show hc: "has_columns ref (names_of numerical_columns)"
    and nu: "numeric_on ref (names_of numerical_columns)"
    by simp_all
  from fit_result[OF hc nu, of self] assms
  show "obj = fitted_state ref (names_of numerical_columns)" by simp
qed

subsection \<open>Datasets with the same columns, and the samples\<close>

lemma sample_table_fit:
  "fit OutlierRemoverIQR sample_table (Many [''age'', ''chol'']) = (sample_table_state, Inr ())"
  by code_simp

lemma sample_table_has: "has_columns sample_table (names_of (Many [''age'', ''chol'']))"
  by code_simp

lemma sample_table_numeric: "numeric_on sample_table (names_of (Many [''age'', ''chol'']))"
  by code_simp

lemma row_value_same_columns:
  "columns df' = columns df \<Longrightarrow> row_value df' r c = row_value df r c"
  by (simp add: row_value_def)

lemma keep_row_same_columns:
  "columns df' = columns df \<Longrightarrow> keep_row ref cols df' r = keep_row ref cols df r"
  using row_value_same_columns[of df' df] by (simp add: keep_row_def)

lemma has_columns_same_columns:
  "columns df' = columns df \<Longrightarrow> has_columns df' cols = has_columns df cols"
  by (simp add: has_columns_def)

lemma numeric_on_subset:
  assumes "columns df' = columns df" "set (rows df') \<subseteq> set (rows df)" "numeric_on df cols"
  shows "numeric_on df' cols"
proof -
  have "\<not> is_text (row_value df' r c)" if "r \<in> set (rows df')" "c \<in> set cols" for r c
  proof -
    from that(1) assms(2) have "r \<in> set (rows df)" by blast
    with assms(3) that(2) have "\<not> is_text (row_value df r c)"
      by (simp add: numeric_on_def list_all_iff)
    then show ?thesis
      using row_value_same_columns[OF assms(1), of r c] by simp
  qed
  then show ?thesis
    by (simp add: numeric_on_def list_all_iff)
qed

lemma in_range_NaN: "\<not> in_range lo (Some (Num NaN)) hi"
  by (cases lo; cases hi) simp_all

subsection \<open>The errors of transform\<close>

lemma assign_stat_columns:
  "numerical_columns_attr (fst (assign_stat key rhs st)) = numerical_columns_attr (fst st)"
  by (cases st) (auto simp: assign_stat_def split: sum.splits)

lemma fit_sets_columns:
  "numerical_columns_attr (fst (fit self df numerical_columns)) = Some (names_of numerical_columns)"
  by (cases numerical_columns) (simp_all add: fit_def Let_def assign_stat_columns)

lemma bind_err_Inl: "bind_err m f = Inl e \<Longrightarrow> m = Inl e \<or> (\<exists>x. m = Inr x \<and> f x = Inl e)"
  by (cases m) (simp_all add: bind_err_def)

lemma getitem_list_error: "getitem_list df keys = Inl e \<Longrightarrow> e = KeyError"
  by (simp add: getitem_list_def Let_def split: if_splits)

lemma getitem_col_error: "getitem_col tab key = Inl e \<Longrightarrow> e = KeyError"
  by (simp add: getitem_col_def split: list.splits)

lemma frame_cmp_error: "frame_cmp cmp df s = Inl e \<Longrightarrow> e = ValueError \<or> e = TypeError"
  by (auto simp: frame_cmp_def split: if_splits)

lemma getitem_mask_error: "getitem_mask df m = Inl e \<Longrightarrow> e = IndexingError"
  by (simp add: getitem_mask_def split: if_splits)

lemma attr_stats_error: "attr_stats self = Inl e \<Longrightarrow> e = AttributeError ''stats_''"
  by (simp add: attr_stats_def split: option.splits)

lemma final_mask_error:
  assumes "numerical_columns_attr self = Some cols" and "final_mask self df = Inl e"
  shows "e \<in> {KeyError, ValueError, TypeError, AttributeError ''stats_''}"
proof -
  have a: "attr_numerical_columns self = Inr cols"
    using assms(1) by (simp add: attr_numerical_columns_def)
  from assms(2) show ?thesis
    unfolding final_mask_def a
    by (auto dest!: bind_err_Inl dest: getitem_list_error getitem_col_error frame_cmp_error
        attr_stats_error)
qed

lemma transform_error:
  assumes "numerical_columns_attr self = Some cols" and "transform self df = Inl e"
  shows "e \<in> {KeyError, ValueError, TypeError, AttributeError ''stats_'', IndexingError}"
  using assms(2) final_mask_error[OF assms(1), of df]
  unfolding transform_def
  by (auto dest!: bind_err_Inl dest: getitem_mask_error)

subsection \<open>The loops over the correlation matrix\<close>

lemma inner_loop_collects:
  assumes "i < length (rows cm)" and "list_all (\<lambda>j. j < length (columns cm)) js"
  shows "inner_loop cm threshold i js acc =
           Inr (acc @ map (\<lambda>j. (columns cm ! i, columns cm ! j, entry cm i j))
                        (filter (\<lambda>j. num_ge (num_abs (entry cm i j)) threshold) js))"
  using assms(2)
proof (induction js arbitrary: acc)
  case Nil
  then show ?case by simp
next
  case (Cons j js)
  from Cons.prems have j: "j < length (columns cm)" and js: "list_all (\<lambda>j. j < length (columns cm)) js"
    by simp_all
  from assms(1) j have "iloc cm i j = Inr (entry cm i j)"
    by (simp add: iloc_def entry_def)
  then show ?case
    by (simp add: Cons.IH[OF js])
qed

lemma inner_loop_empty: "inner_loop cm threshold i [] acc = Inr acc"
  by simp

lemma outer_loop_collects:
  assumes "list_all (\<lambda>i. i < length (rows cm)) is"
  shows "outer_loop cm threshold is acc =
           Inr (acc @ concat (map (\<lambda>i. map (\<lambda>j. (columns cm ! i, columns cm ! j, entry cm i j))
                         (filter (\<lambda>j. num_ge (num_abs (entry cm i j)) threshold)
                            [i + 1..<length (columns cm)])) is))"
  using assms
proof (induction "is" arbitrary: acc)
  case Nil
  then show ?case by simp
next
  case (Cons i "is")
  from Cons.prems have i: "i < length (rows cm)" and rest: "list_all (\<lambda>i. i < length (rows cm)) is"
    by simp_all
  have "list_all (\<lambda>j. j < length (columns cm)) [i + 1..<length (columns cm)]"
    by (simp add: list_all_iff)
  from inner_loop_collects[OF i this]
  show ?case
    by (simp add: Cons.IH[OF rest])
qed

lemma corr_pairs_upper_triangle:
  assumes "length (columns cm) \<le> length (rows cm)"
  shows "outer_loop cm threshold [0..<length (columns cm)] [] = Inr (upper_triangle_pairs cm threshold)"
proof -
  from assms have "list_all (\<lambda>i. i < length (rows cm)) [0..<length (columns cm)]"
    by (simp add: list_all_iff)
  from outer_loop_collects[OF this] show ?thesis
    by (simp add: upper_triangle_pairs_def)
qed

section \<open>Properties of fit and transform\<close>





text \<open>
  C4. Under the same conditions \<open>transform\<close> is idempotent: transforming its result again with
  the same state returns that result.
\<close>

theorem transform_idempotent:
  assumes "fit self ref numerical_columns = (state, Inr ())"
    and "has_columns df (names_of numerical_columns)"
    and "numeric_on df (names_of numerical_columns)"
  shows "\<exists>out. transform state df = Inr out \<and> transform state out = Inr out"
proof -
  define cols where "cols = names_of numerical_columns"
  define out :: dataframe
    where "out = \<lparr>columns = columns df, rows = filter (keep_row ref cols df) (rows df)\<rparr>"
  from fit_fitted(1)[OF assms(1)]
  have st: "state = fitted_state ref cols"
    by (simp add: cols_def)
  have first: "transform state df = Inr out"
    unfolding st out_def using assms(2,3) by (simp add: cols_def transform_fitted)
  have c: "columns out = columns df" and r: "set (rows out) \<subseteq> set (rows df)"
    by (auto simp: out_def)
  have hc: "has_columns out cols"
    using has_columns_same_columns[OF c, of cols] assms(2) by (simp add: cols_def)
  have nu: "numeric_on out cols"
    using numeric_on_subset[OF c r] assms(3) by (simp add: cols_def)
  have "transform state out =
          Inr \<lparr>columns = columns out, rows = filter (keep_row ref cols out) (rows out)\<rparr>"
    unfolding st by (rule transform_fitted[OF hc nu])
  also have "keep_row ref cols out = keep_row ref cols df"
    using keep_row_same_columns[OF c] by blast
  also have "\<lparr>columns = columns out, rows = filter (keep_row ref cols df) (rows out)\<rparr> = out"
    by (simp add: out_def)
  finally have "transform state out = Inr out" .
  with first show ?thesis by blast
qed

theorem transform_idempotent_witness:
  "fit OutlierRemoverIQR sample_table (Many [''age'', ''chol'']) = (sample_table_state, Inr ()) \<and>
   has_columns sample_table [''age'', ''chol''] \<and>
   numeric_on sample_table [''age'', ''chol''] \<and>
   (\<exists>out. transform sample_table_state sample_table = Inr out \<and>
      transform sample_table_state out = Inr out)"
  using transform_idempotent[OF sample_table_fit sample_table_has sample_table_numeric]
    sample_table_fit sample_table_has sample_table_numeric
  by simp

text \<open>
  C5. Fitting on the empty list of columns succeeds on every reference dataset, and the
  resulting state makes \<open>transform\<close> return every dataset as it is.
\<close>

theorem empty_selection_keeps_all:
  "snd (fit self ref (Many [])) = Inr () \<and>
   transform (fst (fit self ref (Many []))) df = Inr df"
proof -
  have "has_columns ref (names_of (Many []))" "numeric_on ref (names_of (Many []))"
    by (simp_all add: has_columns_def numeric_on_def list_all_iff)
  from fit_result[OF this, of self]
  have f: "fit self ref (Many []) = (fitted_state ref [], Inr ())"
    by simp
  have "has_columns df []" "numeric_on df []"
    by (simp_all add: has_columns_def numeric_on_def list_all_iff)
  from transform_fitted[OF this, of ref]
  have "transform (fitted_state ref []) df = Inr df"
    by (cases df) (simp add: keep_row_def)
  with f show ?thesis by simp
qed

text \<open>
  C9. Under the conditions of C1, a row with a missing value in a selected column has a
  false keep decision and is not in the result of \<open>transform\<close>.
\<close>

theorem missing_value_excluded:
  assumes "fit self ref numerical_columns = (state, Inr ())"
    and "has_columns df (names_of numerical_columns)"
    and "numeric_on df (names_of numerical_columns)"
    and "r \<in> set (rows df)"
    and "c \<in> set (names_of numerical_columns)"
    and "row_value df r c = Some (Num NaN)"
  shows "\<exists>m out. final_mask state df = Inr m \<and> (fst r, False) \<in> set m \<and>
           transform state df = Inr out \<and> r \<notin> set (rows out)"
proof -
  from fit_fitted(1)[OF assms(1)]
  have st: "state = fitted_state ref (names_of numerical_columns)" .
  have "\<not> in_range (lower_cutoff ref c) (row_value df r c) (upper_cutoff ref c)"
    unfolding assms(6) by (rule in_range_NaN)
  with assms(5) have k: "\<not> keep_row ref (names_of numerical_columns) df r"
    unfolding keep_row_def list_all_iff by blast
  with assms(4) have "(fst r, False) \<in> set (map (\<lambda>r. (fst r, keep_row ref (names_of numerical_columns) df r)) (rows df))"
    by force
  moreover from k have "r \<notin> set (filter (keep_row ref (names_of numerical_columns) df) (rows df))"
    by simp
  ultimately show ?thesis
    unfolding st final_mask_fitted[OF assms(2,3)] transform_fitted[OF assms(2,3)]
    by simp
qed

theorem missing_value_excluded_witness:
  "fit OutlierRemoverIQR sample_table (Many [''age'', ''chol'']) = (sample_table_state, Inr ()) \<and>
   has_columns sample_table [''age'', ''chol''] \<and>
   numeric_on sample_table [''age'', ''chol''] \<and>
   (6, [Num NaN, Str ''M'', Num (Val 201)]) \<in> set (rows sample_table) \<and>
   ''age'' \<in> set [''age'', ''chol''] \<and>
   row_value sample_table (6, [Num NaN, Str ''M'', Num (Val 201)]) ''age'' = Some (Num NaN) \<and>
   (\<exists>m out. final_mask sample_table_state sample_table = Inr m \<and> (6, False) \<in> set m \<and>
      transform sample_table_state sample_table = Inr out \<and>
      (6, [Num NaN, Str ''M'', Num (Val 201)]) \<notin> set (rows out))"
proof -
  have r: "(6, [Num NaN, Str ''M'', Num (Val 201)]) \<in> set (rows sample_table)"
    by (simp add: sample_table_def)
  have c: "''age'' \<in> set (names_of (Many [''age'', ''chol'']))"
    by simp
  have v: "row_value sample_table (6, [Num NaN, Str ''M'', Num (Val 201)]) ''age'' = Some (Num NaN)"
    by code_simp
  from missing_value_excluded[OF sample_table_fit sample_table_has sample_table_numeric r c v]
    sample_table_fit sample_table_has sample_table_numeric r v
  show ?thesis by simp
qed

text \<open>
  C3. Fitting on the single column with the values 1, ..., 9, 100 gives Q1 = 3.25,
  Q3 = 7.75, IQR = 4.5, the lower cutoff -3.5 and the upper cutoff 14.5; transforming the
  same dataset with that state drops the row with the value 100 and keeps the nine others.
\<close>

theorem cutoff_formula_sample:
  "fit OutlierRemoverIQR sample_column (Single ''x'') = (sample_state, Inr ()) \<and>
   transform sample_state sample_column = Inr sample_kept"
  by code_simp

text \<open>
  C6. \<open>fit\<close> is deterministic: its outcome and the state it leaves depend on the reference
  dataset and the column list only, not on what the object held before; in particular a
  second \<open>fit\<close> of the same object on the same inputs leaves the same state.
\<close>

theorem fit_deterministic:
  "fit self1 df numerical_columns = fit self2 df numerical_columns \<and>
   fit (fst (fit self1 df numerical_columns)) df numerical_columns =
     fit self1 df numerical_columns"
  by (cases self1; cases self2; cases "fst (fit self1 df numerical_columns)")
     (simp add: fit_def)

text \<open>
  C7. \<open>transform\<close> on an object that was never fitted fails, whatever the dataset: reading
  the attribute \<open>numerical_columns_\<close>, which only \<open>fit\<close> assigns, raises before the dataset is
  looked at. The error tells the unfitted object apart: after any call of \<open>fit\<close>, \<open>transform\<close>
  never raises it.
\<close>

theorem transform_before_fit:
  "transform OutlierRemoverIQR df = Inl (AttributeError ''numerical_columns_'') \<and>
   transform (fst (fit self ref numerical_columns)) df \<noteq> Inl (AttributeError ''numerical_columns_'')"
proof -
  have "transform OutlierRemoverIQR df = Inl (AttributeError ''numerical_columns_'')"
    by (simp add: transform_def final_mask_def attr_numerical_columns_def OutlierRemoverIQR_def
      bind_err_def)
  moreover have "transform (fst (fit self ref numerical_columns)) df \<noteq>
      Inl (AttributeError ''numerical_columns_'')"
    using transform_error[OF fit_sets_columns, of self ref numerical_columns df
        "AttributeError ''numerical_columns_''"]
    by auto
  ultimately show ?thesis by blast
qed




section \<open>Properties of the correlation pairs\<close>

text \<open>
  C10. For a correlation matrix (as many rows as columns, at least),
  \<open>plot_high_correlation_scatter\<close> returns the triples of the strict upper triangle, row by
  row, whose absolute value reaches the threshold, taken from the matrix as they are: the
  empty list when there is none, whatever the grid; the list itself when the grid has a
  non-zero number of columns and the drawing does not raise; and nothing else in any case.
\<close>

theorem high_correlation_pairs:
  assumes "length (columns cm) \<le> length (rows cm)"
  shows "(upper_triangle_pairs cm threshold = [] \<longrightarrow>
            plot_high_correlation_scatter draw df cm threshold n_cols = Inr []) \<and>
         (n_cols \<noteq> 0 \<and>
          draw df (upper_triangle_pairs cm threshold)
            ((int (length (upper_triangle_pairs cm threshold)) + n_cols - 1) div n_cols) n_cols = None \<longrightarrow>
            plot_high_correlation_scatter draw df cm threshold n_cols =
              Inr (upper_triangle_pairs cm threshold)) \<and>
         (\<forall>ps. plot_high_correlation_scatter draw df cm threshold n_cols = Inr ps \<longrightarrow>
            ps = upper_triangle_pairs cm threshold)"
  unfolding plot_high_correlation_scatter_def corr_pairs_upper_triangle[OF assms]
  by (simp add: bind_err_def Let_def split: option.splits)

theorem high_correlation_pairs_witness:
  "length (columns sample_corr) \<le> length (rows sample_corr) \<and>
   upper_triangle_pairs sample_corr (Val 0.5) =
     [(''age'', ''chol'', Val 0.7), (''chol'', ''bp'', Val (- 0.6))] \<and>
   plot_high_correlation_scatter (\<lambda>df ps n_rows n_cols. None) sample_table sample_corr (Val 0.5) 4 =
     Inr [(''age'', ''chol'', Val 0.7), (''chol'', ''bp'', Val (- 0.6))] \<and>
   upper_triangle_pairs sample_corr (Val 0.9) = [] \<and>
   plot_high_correlation_scatter (\<lambda>df ps n_rows n_cols. None) sample_table sample_corr (Val 0.9) 4 =
     Inr []"
proof -
  have sq: "length (columns sample_corr) \<le> length (rows sample_corr)"
    by (simp add: sample_corr_def)
  have hi: "upper_triangle_pairs sample_corr (Val 0.5) =
     [(''age'', ''chol'', Val 0.7), (''chol'', ''bp'', Val (- 0.6))]"
    by code_simp
  have none: "upper_triangle_pairs sample_corr (Val 0.9) = []"
    by code_simp
  from high_correlation_pairs[OF sq, of "Val 0.5" "\<lambda>df ps n_rows n_cols. None" sample_table 4,
      THEN conjunct2, THEN conjunct1]
  have a: "plot_high_correlation_scatter (\<lambda>df ps n_rows n_cols. None) sample_table sample_corr
             (Val 0.5) 4 = Inr (upper_triangle_pairs sample_corr (Val 0.5))"
    by simp
  from high_correlation_pairs[OF sq, of "Val 0.9" "\<lambda>df ps n_rows n_cols. None" sample_table 4,
      THEN conjunct1] none
  have b: "plot_high_correlation_scatter (\<lambda>df ps n_rows n_cols. None) sample_table sample_corr
             (Val 0.9) 4 = Inr []"
    by simp
  from sq hi none a b show ?thesis
    by simp
qed

end
